theory Spec2Isabelle
  imports Main
begin

section \<open>Token issuance: the duration-string parser\<close>

text \<open>
  \<^verbatim>\<open>parseTimeToSeconds\<close> (auth.controller.ts) matches its argument against the
  regular expression \<^verbatim>\<open>/^(\d+)([dhms])$/\<close>. The two character classes are disjoint, so
  the greedy \<^verbatim>\<open>\d+\<close> never has to give a character back: the match succeeds exactly
  when the longest prefix of digits is non-empty and is followed by a single unit character
  that ends the string.
\<close>

definition isDigit :: "char \<Rightarrow> bool" where
  "isDigit c = (c \<in> set ''0123456789'')"

definition isUnit :: "char \<Rightarrow> bool" where
  "isUnit c = (c \<in> set ''dhms'')"

definition matchDuration :: "string \<Rightarrow> (string \<times> char) option" where
  "matchDuration timeStr =
     (let digits = takeWhile isDigit timeStr; rest = dropWhile isDigit timeStr
      in case rest of
           [u] \<Rightarrow> if digits \<noteq> [] \<and> isUnit u then Some (digits, u) else None
         | _ \<Rightarrow> None)"

text \<open>
  \<^verbatim>\<open>parseInt(match[1], 10)\<close> on a string of decimal digits. The model computes the
  exact natural number; a JavaScript number agrees with it up to \<open>2 ^ 53\<close>.
\<close>

definition digitValue :: "char \<Rightarrow> nat" where
  "digitValue c = of_char c - 48"

definition parseInt10 :: "string \<Rightarrow> nat" where
  "parseInt10 digits = foldl (\<lambda>n c. 10 * n + digitValue c) 0 digits"

definition parseTimeToSeconds :: "string \<Rightarrow> nat" where
  "parseTimeToSeconds timeStr =
     (case matchDuration timeStr of
        None \<Rightarrow> 7 * 24 * 60 * 60
      | Some (digits, unit) \<Rightarrow>
          (let v = parseInt10 digits
           in if unit = CHR ''d'' then v * 24 * 60 * 60
              else if unit = CHR ''h'' then v * 60 * 60
              else if unit = CHR ''m'' then v * 60
              else if unit = CHR ''s'' then v
              else 7 * 24 * 60 * 60))"

text \<open>
  The pattern as the specification words it: an integer (one or more decimal digits)
  followed by one unit character out of d, h, m, s.
\<close>

definition spec_duration_pattern :: "string \<Rightarrow> bool" where
  "spec_duration_pattern s =
     (s \<noteq> [] \<and> butlast s \<noteq> [] \<and> list_all isDigit (butlast s) \<and> isUnit (last s))"

section \<open>Data model\<close>

text \<open>
  Documents carry the fields the modelled handlers read or write. An ObjectId is a
  natural number, a date is a number of milliseconds. A collection is the list of its
  documents, in insertion order; the problem catalog, which no modelled handler writes, is
  a map from the primary key to the document.
\<close>

type_synonym objectId = nat
type_synonym date = nat

datatype UserRole = USER | ADMIN

datatype ProgressStatus = NOT_STARTED | COMPLETED

datatype AdminActionType =
    CREATE_PROBLEM | UPDATE_PROBLEM | DELETE_PROBLEM
  | CREATE_TOPIC | UPDATE_TOPIC | DELETE_TOPIC
  | PROMOTE_USER | DEMOTE_USER | DEACTIVATE_USER | ACTIVATE_USER

datatype EntityType = ENTITY_PROBLEM | ENTITY_TOPIC | ENTITY_USER

datatype Difficulty = Easy | Medium | Hard

record user =
  userOid :: objectId
  name :: string
  email :: string
  role :: UserRole
  isActive :: bool

record problem =
  title :: string
  slug :: string
  difficulty :: Difficulty
  problemIsActive :: bool

text \<open>
  What \<^verbatim>\<open>populate('problemId', 'title slug difficulty')\<close> puts in the place of a
  record's problem reference: the key and the three selected fields of the catalog document.
\<close>

record populatedProblem =
  popOid :: objectId
  popTitle :: string
  popSlug :: string
  popDifficulty :: Difficulty

record progress =
  progressOid :: objectId
  userId :: objectId
  problemId :: objectId
  status :: ProgressStatus
  completedAt :: "date option"
  createdAt :: date
  updatedAt :: date

record adminLog =
  adminId :: objectId
  actionType :: AdminActionType
  entityId :: "objectId option"
  entityType :: "EntityType option"
  metadata :: "(string \<times> string) list"
  timestamp :: date

record db =
  users :: "user list"
  problems :: "objectId \<rightharpoonup> problem"
  progressDocs :: "progress list"
  adminLogs :: "adminLog list"
  nextOid :: objectId

record IJwtPayload =
  jwtUserId :: objectId
  jwtEmail :: string
  jwtRole :: UserRole

section \<open>Errors and responses\<close>

text \<open>
  \<open>ApiError\<close> is the class of ApiError.ts with its status code, message and detail
  list. \<open>ThrownError name message\<close> is any other exception (an \<^verbatim>\<open>Error\<close> with that
  name and message) that is neither a Mongoose validation or cast error nor a duplicate-key
  error, such as the one a store operation rejects with when the store is unavailable.
\<close>

datatype error =
    ApiError nat string "string list"
  | ThrownError string string

definition badRequest :: "string \<Rightarrow> error" where
  "badRequest msg = ApiError 400 msg []"

definition unauthorized :: "string \<Rightarrow> error" where
  "unauthorized msg = ApiError 401 msg []"

definition forbidden :: "string \<Rightarrow> error" where
  "forbidden msg = ApiError 403 msg []"

definition notFound :: "string \<Rightarrow> error" where
  "notFound msg = ApiError 404 msg []"

text \<open>
  The data of a response. A progress record is sent with its problem reference populated:
  \<open>ProgressPayload d pop\<close> is the record \<open>d\<close> whose \<^verbatim>\<open>problemId\<close> path holds
  \<open>pop\<close>, the selected fields of the catalog document or \<^verbatim>\<open>null\<close> (\<open>None\<close>).
\<close>

datatype payload =
    ProgressPayload progress "populatedProblem option"
  | UserPayload user
  | UpdatedPayload nat

text \<open>
  The JSON body with its HTTP status: \<open>Success\<close> is what \<^verbatim>\<open>ApiResponse.success\<close>
  sends (\<^verbatim>\<open>success: true\<close>, the message and the optional data), \<open>Failure\<close> is what
  \<^verbatim>\<open>errorMiddleware\<close> sends (\<^verbatim>\<open>success: false\<close>, the message and the detail list).
\<close>

datatype response =
    Success nat string "payload option"
  | Failure nat string "string list"

text \<open>
  \<^verbatim>\<open>errorMiddleware\<close>: an ApiError is used as it is; an exception of the JWT library
  is mapped by \<^verbatim>\<open>handleJWTError\<close>; every other exception becomes a 500 whose message
  is hidden in production. The response is built from the ApiError so obtained: the local
  \<open>error\<close> is an ApiError on every path, and the last branch below is never taken.
\<close>

definition handleJWTError :: "string \<Rightarrow> error" where
  "handleJWTError errName =
     (if errName = ''TokenExpiredError'' then ApiError 401 ''Token has expired. Please login again.'' []
      else if errName = ''JsonWebTokenError'' then ApiError 401 ''Invalid token. Please login again.'' []
      else ApiError 401 ''Authentication failed.'' [])"

definition errorMiddleware :: "bool \<Rightarrow> error \<Rightarrow> response" where
  "errorMiddleware isProduction err =
     (let error =
        (case err of
           ApiError sc msg errs \<Rightarrow> ApiError sc msg errs
         | ThrownError errName msg \<Rightarrow>
             if errName = ''JsonWebTokenError'' \<or> errName = ''TokenExpiredError''
             then handleJWTError errName
             else ApiError 500 (if isProduction then ''Internal server error'' else msg) [])
      in case error of
           ApiError sc msg errs \<Rightarrow> Failure sc msg errs
         | ThrownError _ msg \<Rightarrow> Failure 500 msg [])"

text \<open>
  \<^verbatim>\<open>asyncHandler\<close> forwards a rejected handler to the error middleware; the state the
  handler had reached when it threw stays as it is.
\<close>

definition asyncHandler ::
  "bool \<Rightarrow> (db \<Rightarrow> (error + response) \<times> db) \<Rightarrow> db \<Rightarrow> response \<times> db" where
  "asyncHandler isProduction fn s =
     (case fn s of
        (Inl err, s') \<Rightarrow> (errorMiddleware isProduction err, s')
      | (Inr res, s') \<Rightarrow> (res, s'))"

section \<open>Authorization Gate\<close>

text \<open>
  \<^verbatim>\<open>String.prototype.startsWith\<close> and \<^verbatim>\<open>String.prototype.split\<close> with a
  one-character separator.
\<close>

definition startsWith :: "string \<Rightarrow> string \<Rightarrow> bool" where
  "startsWith s pre = (take (length pre) s = pre)"

fun split :: "char \<Rightarrow> string \<Rightarrow> string list" where
  "split sep [] = [[]]"
| "split sep (c # cs) =
     (if c = sep then [] # split sep cs
      else (case split sep cs of
              [] \<Rightarrow> [[c]]
            | w # ws \<Rightarrow> (c # w) # ws))"

text \<open>
  Step 1 of \<^verbatim>\<open>authMiddleware\<close>: the Authorization header (absent is \<open>None\<close>) must be
  non-empty and start with \<^verbatim>\<open>'Bearer '\<close>; the token is element 1 of the header split
  at spaces, and an undefined or empty element 1 is a missing token.
\<close>

definition extractToken :: "string option \<Rightarrow> error + string" where
  "extractToken authHeader =
     (case authHeader of
        None \<Rightarrow> Inl (unauthorized ''Authentication required. Please provide a valid token.'')
      | Some h \<Rightarrow>
          if h = [] \<or> \<not> startsWith h ''Bearer ''
          then Inl (unauthorized ''Authentication required. Please provide a valid token.'')
          else (case split CHR '' '' h of
                  _ # token # _ \<Rightarrow>
                    if token = [] then Inl (unauthorized ''Authentication token is missing.'')
                    else Inr token
                | _ \<Rightarrow> Inl (unauthorized ''Authentication token is missing.'')))"

text \<open>
  \<^verbatim>\<open>jwt.verify(token, env.jwtSecret)\<close> belongs to the jsonwebtoken library; the gate
  takes it as the function \<open>verify\<close>, which returns the decoded payload or the class of
  the exception thrown.
\<close>

datatype verifyResult =
    Decoded IJwtPayload
  | TokenExpiredError
  | JsonWebTokenError
  | OtherVerifyError

definition findById :: "user list \<Rightarrow> objectId \<Rightarrow> user option" where
  "findById docs i = find (\<lambda>u. userOid u = i) docs"

definition authMiddleware ::
  "(string \<Rightarrow> verifyResult) \<Rightarrow> string option \<Rightarrow> db \<Rightarrow> error + user" where
  "authMiddleware verify authHeader s =
     (case extractToken authHeader of
        Inl err \<Rightarrow> Inl err
      | Inr token \<Rightarrow>
          (case verify token of
             TokenExpiredError \<Rightarrow> Inl (unauthorized ''Token has expired. Please login again.'')
           | JsonWebTokenError \<Rightarrow> Inl (unauthorized ''Invalid token. Please login again.'')
           | OtherVerifyError \<Rightarrow> Inl (unauthorized ''Token verification failed.'')
           | Decoded decoded \<Rightarrow>
               (case findById (users s) (jwtUserId decoded) of
                  None \<Rightarrow> Inl (unauthorized ''User no longer exists. Please register again.'')
                | Some u \<Rightarrow>
                    if \<not> isActive u
                    then Inl (unauthorized
                           ''Your account has been deactivated. Please contact support.'')
                    else Inr u)))"

text \<open>\<^verbatim>\<open>adminMiddleware\<close> reads \<^verbatim>\<open>req.user\<close>, which is unset when no gate ran.\<close>

definition adminMiddleware :: "user option \<Rightarrow> error + unit" where
  "adminMiddleware reqUser =
     (case reqUser of
        None \<Rightarrow>
          Inl (unauthorized ''Authentication required. Please login to access this resource.'')
      | Some u \<Rightarrow>
          if role u \<noteq> ADMIN
          then Inl (forbidden ''Access denied. Administrator privileges required.'')
          else Inr ())"

text \<open>
  \<^verbatim>\<open>requireAdmin = [authMiddleware, adminMiddleware]\<close>: the second runs on the
  request the first has attached the user to, and only when the first has not thrown.
\<close>

definition requireAdmin ::
  "(string \<Rightarrow> verifyResult) \<Rightarrow> string option \<Rightarrow> db \<Rightarrow> error + user" where
  "requireAdmin verify authHeader s =
     (case authMiddleware verify authHeader s of
        Inl err \<Rightarrow> Inl err
      | Inr u \<Rightarrow>
          (case adminMiddleware (Some u) of
             Inl err \<Rightarrow> Inl err
           | Inr _ \<Rightarrow> Inr u))"

section \<open>Audit log and user management\<close>

text \<open>
  \<^verbatim>\<open>AdminLog.logAction\<close> returns \<^verbatim>\<open>this.create(...)\<close>. The store may reject the
  insert; \<open>fault\<close> is the exception it rejects with, if it does. Nothing catches it.
\<close>

definition logAction ::
  "error option \<Rightarrow> objectId \<Rightarrow> AdminActionType \<Rightarrow> objectId option \<Rightarrow> EntityType option
     \<Rightarrow> (string \<times> string) list \<Rightarrow> date \<Rightarrow> db \<Rightarrow> error + db" where
  "logAction fault aId aType eId eType meta now s =
     (case fault of
        Some err \<Rightarrow> Inl err
      | None \<Rightarrow>
          Inr (s\<lparr>adminLogs := adminLogs s @
                 [\<lparr>adminId = aId, actionType = aType, entityId = eId, entityType = eType,
                   metadata = meta, timestamp = now\<rparr>]\<rparr>))"

definition roleString :: "UserRole \<Rightarrow> string" where
  "roleString r = (case r of USER \<Rightarrow> ''user'' | ADMIN \<Rightarrow> ''admin'')"

text \<open>\<^verbatim>\<open>user.save()\<close> writes the document back under its \<^verbatim>\<open>_id\<close>.\<close>

definition save :: "user \<Rightarrow> user list \<Rightarrow> user list" where
  "save u docs = map (\<lambda>d. if userOid d = userOid u then u else d) docs"

definition promoteUser ::
  "error option \<Rightarrow> user \<Rightarrow> objectId \<Rightarrow> date \<Rightarrow> db \<Rightarrow> (error + response) \<times> db" where
  "promoteUser fault reqUser i now s =
     (case findById (users s) i of
        None \<Rightarrow> (Inl (notFound ''User not found''), s)
      | Some u \<Rightarrow>
          if role u = ADMIN then (Inl (badRequest ''User is already an admin''), s)
          else
            (let previousRole = role u;
                 u' = u\<lparr>role := ADMIN\<rparr>;
                 s1 = s\<lparr>users := save u' (users s)\<rparr>
             in case logAction fault (userOid reqUser) PROMOTE_USER (Some i) (Some ENTITY_USER)
                       [(''userName'', name u'), (''userEmail'', email u'),
                        (''previousRole'', roleString previousRole),
                        (''newRole'', roleString ADMIN)] now s1 of
                  Inl err \<Rightarrow> (Inl err, s1)
                | Inr s2 \<Rightarrow>
                    (Inr (Success 200 ''User promoted to admin successfully''
                            (Some (UserPayload u'))), s2)))"

definition demoteUser ::
  "error option \<Rightarrow> user \<Rightarrow> objectId \<Rightarrow> date \<Rightarrow> db \<Rightarrow> (error + response) \<times> db" where
  "demoteUser fault reqUser i now s =
     (case findById (users s) i of
        None \<Rightarrow> (Inl (notFound ''User not found''), s)
      | Some u \<Rightarrow>
          if role u = USER then (Inl (badRequest ''User is already a regular user''), s)
          else if userOid u = userOid reqUser
          then (Inl (badRequest ''You cannot demote yourself''), s)
          else
            (let previousRole = role u;
                 u' = u\<lparr>role := USER\<rparr>;
                 s1 = s\<lparr>users := save u' (users s)\<rparr>
             in case logAction fault (userOid reqUser) DEMOTE_USER (Some i) (Some ENTITY_USER)
                       [(''userName'', name u'), (''userEmail'', email u'),
                        (''previousRole'', roleString previousRole),
                        (''newRole'', roleString USER)] now s1 of
                  Inl err \<Rightarrow> (Inl err, s1)
                | Inr s2 \<Rightarrow>
                    (Inr (Success 200 ''User demoted to regular user successfully''
                            (Some (UserPayload u'))), s2)))"

definition deactivateUser ::
  "error option \<Rightarrow> user \<Rightarrow> objectId \<Rightarrow> date \<Rightarrow> db \<Rightarrow> (error + response) \<times> db" where
  "deactivateUser fault reqUser i now s =
     (case findById (users s) i of
        None \<Rightarrow> (Inl (notFound ''User not found''), s)
      | Some u \<Rightarrow>
          if userOid u = userOid reqUser
          then (Inl (badRequest ''You cannot deactivate your own account''), s)
          else if \<not> isActive u then (Inl (badRequest ''User is already deactivated''), s)
          else
            (let u' = u\<lparr>isActive := False\<rparr>;
                 s1 = s\<lparr>users := save u' (users s)\<rparr>
             in case logAction fault (userOid reqUser) DEACTIVATE_USER (Some i) (Some ENTITY_USER)
                       [(''userName'', name u'), (''userEmail'', email u')] now s1 of
                  Inl err \<Rightarrow> (Inl err, s1)
                | Inr s2 \<Rightarrow>
                    (Inr (Success 200 ''User deactivated successfully''
                            (Some (UserPayload u'))), s2)))"

section \<open>Progress Ledger\<close>

text \<open>
  \<^verbatim>\<open>findOneAndUpdate({ userId, problemId }, { status, completedAt }, options)\<close> on the
  UserProgress collection: the first document that matches the filter is updated in place
  (the schema's \<^verbatim>\<open>timestamps\<close> option refreshes \<^verbatim>\<open>updatedAt\<close>); when none
  matches, \<^verbatim>\<open>upsert: true\<close> inserts a document built from the filter and the update
  under a fresh ObjectId, and without it the result is \<^verbatim>\<open>null\<close>. With
  \<^verbatim>\<open>new: true\<close> the document returned is the one after the update.
\<close>

fun updateFirst ::
  "(progress \<Rightarrow> bool) \<Rightarrow> (progress \<Rightarrow> progress) \<Rightarrow> progress list
     \<Rightarrow> progress option \<times> progress list" where
  "updateFirst q f [] = (None, [])"
| "updateFirst q f (d # ds) =
     (if q d then (Some (f d), f d # ds)
      else (case updateFirst q f ds of (r, ds') \<Rightarrow> (r, d # ds')))"

definition UserProgress_findOneAndUpdate ::
  "objectId \<Rightarrow> objectId \<Rightarrow> ProgressStatus \<Rightarrow> date option \<Rightarrow> bool \<Rightarrow> date \<Rightarrow> db
     \<Rightarrow> progress option \<times> db" where
  "UserProgress_findOneAndUpdate u p st ca upsert now s =
     (case updateFirst (\<lambda>d. userId d = u \<and> problemId d = p)
             (\<lambda>d. d\<lparr>status := st, completedAt := ca, updatedAt := now\<rparr>) (progressDocs s) of
        (Some d, ds) \<Rightarrow> (Some d, s\<lparr>progressDocs := ds\<rparr>)
      | (None, _) \<Rightarrow>
          if upsert
          then (let d = \<lparr>progressOid = nextOid s, userId = u, problemId = p, status = st,
                          completedAt = ca, createdAt = now, updatedAt = now\<rparr>
                in (Some d, s\<lparr>progressDocs := progressDocs s @ [d],
                               nextOid := Suc (nextOid s)\<rparr>))
          else (None, s))"

definition UserProgress_markCompleted ::
  "objectId \<Rightarrow> objectId \<Rightarrow> date \<Rightarrow> db \<Rightarrow> progress option \<times> db" where
  "UserProgress_markCompleted u p now s =
     UserProgress_findOneAndUpdate u p COMPLETED (Some now) True now s"

definition UserProgress_resetProgress ::
  "objectId \<Rightarrow> objectId \<Rightarrow> date \<Rightarrow> db \<Rightarrow> progress option \<times> db" where
  "UserProgress_resetProgress u p now s =
     UserProgress_findOneAndUpdate u p NOT_STARTED None False now s"

text \<open>
  \<^verbatim>\<open>progress.populate('problemId', 'title slug difficulty')\<close> looks the record's problem
  up in the catalog by its key, whether the problem is active or not, and replaces the
  reference by the selected fields of the document found, or by \<^verbatim>\<open>null\<close> when the
  catalog has no such document. It writes nothing to the store.
\<close>

definition populate :: "db \<Rightarrow> progress \<Rightarrow> populatedProblem option" where
  "populate s d =
     (case problems s (problemId d) of
        None \<Rightarrow> None
      | Some pr \<Rightarrow>
          Some \<lparr>popOid = problemId d, popTitle = title pr, popSlug = slug pr,
                popDifficulty = difficulty pr\<rparr>)"

text \<open>
  The controllers. \<open>problemMissing\<close> is the test \<^verbatim>\<open>!problem || !problem.isActive\<close> on
  the result of \<^verbatim>\<open>Problem.findById(problemId)\<close>, which \<^verbatim>\<open>updateProgress\<close> and
  \<^verbatim>\<open>markComplete\<close> make before they touch the ledger; \<^verbatim>\<open>resetProgress\<close> has no
  such test. Calling \<^verbatim>\<open>populate\<close> on \<^verbatim>\<open>null\<close> would throw a TypeError, which
  is the \<open>None\<close> branch of \<^verbatim>\<open>updateProgress\<close> and \<^verbatim>\<open>markComplete\<close>;
  \<^verbatim>\<open>resetProgress\<close> returns before it when the store has returned \<^verbatim>\<open>null\<close>.
\<close>

definition problemMissing :: "db \<Rightarrow> objectId \<Rightarrow> bool" where
  "problemMissing s p =
     (case problems s p of None \<Rightarrow> True | Some pr \<Rightarrow> \<not> problemIsActive pr)"

definition updateProgress ::
  "user \<Rightarrow> objectId \<Rightarrow> ProgressStatus \<Rightarrow> date \<Rightarrow> db \<Rightarrow> (error + response) \<times> db" where
  "updateProgress reqUser p st now s =
     (if problemMissing s p then (Inl (notFound ''Problem not found''), s)
      else
        (case (if st = COMPLETED then UserProgress_markCompleted (userOid reqUser) p now s
               else UserProgress_findOneAndUpdate (userOid reqUser) p st None True now s) of
           (None, s') \<Rightarrow>
             (Inl (ThrownError ''TypeError'' ''Cannot read properties of null''), s')
         | (Some d, s') \<Rightarrow>
             (Inr (Success 200 ''Progress updated successfully''
                     (Some (ProgressPayload d (populate s' d)))), s')))"

definition markComplete ::
  "user \<Rightarrow> objectId \<Rightarrow> date \<Rightarrow> db \<Rightarrow> (error + response) \<times> db" where
  "markComplete reqUser p now s =
     (if problemMissing s p then (Inl (notFound ''Problem not found''), s)
      else
        (case UserProgress_markCompleted (userOid reqUser) p now s of
           (None, s') \<Rightarrow>
             (Inl (ThrownError ''TypeError'' ''Cannot read properties of null''), s')
         | (Some d, s') \<Rightarrow>
             (Inr (Success 200 ''Problem marked as completed''
                     (Some (ProgressPayload d (populate s' d)))), s')))"

definition resetProgress ::
  "user \<Rightarrow> objectId \<Rightarrow> date \<Rightarrow> db \<Rightarrow> (error + response) \<times> db" where
  "resetProgress reqUser p now s =
     (case UserProgress_resetProgress (userOid reqUser) p now s of
        (None, s') \<Rightarrow> (Inr (Success 200 ''No progress to reset'' None), s')
      | (Some d, s') \<Rightarrow>
          (Inr (Success 200 ''Progress reset successfully''
                  (Some (ProgressPayload d (populate s' d)))), s'))"

text \<open>
  \<^verbatim>\<open>Problem.find({ _id: { $in: problemIds }, isActive: true })\<close> returns every active
  catalog document whose key occurs among the identifiers, each document once.
\<close>

definition Problem_find_active :: "db \<Rightarrow> objectId list \<Rightarrow> problem list" where
  "Problem_find_active s problemIds =
     List.map_filter
       (\<lambda>i. case problems s i of
               None \<Rightarrow> None
             | Some pr \<Rightarrow> if problemIsActive pr then Some pr else None)
       (remdups problemIds)"

text \<open>
  The updates of a batch are started together with \<^verbatim>\<open>Promise.all\<close>, each one an
  atomic store operation. A batch that passes the existence check names pairwise different
  problems, so its upserts touch different documents; the model applies them in list order.
\<close>

fun processUpdates ::
  "objectId \<Rightarrow> (objectId \<times> ProgressStatus) list \<Rightarrow> date \<Rightarrow> db \<Rightarrow> progress option list \<times> db" where
  "processUpdates u [] now s = ([], s)"
| "processUpdates u ((p, st) # rest) now s =
     (case (if st = COMPLETED then UserProgress_markCompleted u p now s
            else UserProgress_findOneAndUpdate u p st None True now s) of
        (doc, s1) \<Rightarrow>
          (case processUpdates u rest now s1 of
             (docs, s2) \<Rightarrow> (doc # docs, s2)))"

fun showNat :: "nat \<Rightarrow> string" where
  "showNat n =
     (if n < 10 then [char_of (48 + n)]
      else showNat (n div 10) @ [char_of (48 + n mod 10)])"

definition batchUpdateProgress ::
  "user \<Rightarrow> (objectId \<times> ProgressStatus) list \<Rightarrow> date \<Rightarrow> db \<Rightarrow> (error + response) \<times> db" where
  "batchUpdateProgress reqUser updates now s =
     (let problemIds = map fst updates;
          found = Problem_find_active s problemIds
      in if length found \<noteq> length problemIds
         then (Inl (badRequest ''One or more problems not found''), s)
         else
           (case processUpdates (userOid reqUser) updates now s of
              (results, s') \<Rightarrow>
                (Inr (Success 200
                        (''Updated progress for '' @ showNat (length results) @ '' problems'')
                        (Some (UpdatedPayload (length results)))), s')))"

text \<open>
  \<^verbatim>\<open>validateBody(batchUpdateProgressSchema)\<close> on a body whose items already have a
  well-formed problem identifier and one of the two statuses: what is left to check is the
  length of the array, between 1 and 50.
\<close>

definition validateBatchBody ::
  "(objectId \<times> ProgressStatus) list \<Rightarrow> error + (objectId \<times> ProgressStatus) list" where
  "validateBatchBody updates =
     (if length updates < 1
      then Inl (ApiError 400 ''Validation failed'' [''At least one update is required''])
      else if length updates > 50
      then Inl (ApiError 400 ''Validation failed'' [''Maximum 50 updates allowed at once''])
      else Inr updates)"

text \<open>The route \<^verbatim>\<open>POST /api/progress/batch\<close> behind the gate: validator, then controller.\<close>

definition postProgressBatch ::
  "user \<Rightarrow> (objectId \<times> ProgressStatus) list \<Rightarrow> date \<Rightarrow> db \<Rightarrow> (error + response) \<times> db" where
  "postProgressBatch reqUser updates now s =
     (case validateBatchBody updates of
        Inl err \<Rightarrow> (Inl err, s)
      | Inr body \<Rightarrow> batchUpdateProgress reqUser body now s)"

text \<open>
  A request to the ledger, with the time at which the store serves it, and the run of a
  sequence of requests: each leaves the store in the state its handler reached, whether it
  answered or threw.
\<close>

datatype ledgerRequest =
    MarkComplete user objectId
  | UpdateStatus user objectId ProgressStatus
  | Reset user objectId
  | BatchUpdate user "(objectId \<times> ProgressStatus) list"

fun handle :: "ledgerRequest \<Rightarrow> date \<Rightarrow> db \<Rightarrow> (error + response) \<times> db" where
  "handle (MarkComplete reqUser p) now s = markComplete reqUser p now s"
| "handle (UpdateStatus reqUser p st) now s = updateProgress reqUser p st now s"
| "handle (Reset reqUser p) now s = resetProgress reqUser p now s"
| "handle (BatchUpdate reqUser updates) now s = postProgressBatch reqUser updates now s"

fun run :: "(ledgerRequest \<times> date) list \<Rightarrow> db \<Rightarrow> db" where
  "run [] s = s"
| "run ((r, now) # rs) s = run rs (snd (handle r now s))"

text \<open>The number of Progress Records the ledger holds for an account and a problem.\<close>

definition recordsFor :: "objectId \<Rightarrow> objectId \<Rightarrow> db \<Rightarrow> nat" where
  "recordsFor u p s = length (filter (\<lambda>d. userId d = u \<and> problemId d = p) (progressDocs s))"

definition uniqueFor :: "objectId \<Rightarrow> objectId \<Rightarrow> db \<Rightarrow> bool" where
  "uniqueFor u p s = (recordsFor u p s \<le> 1)"

section \<open>Example store\<close>

text \<open>
  A small store for the concrete instances below: an administrator, a second
  administrator, a deactivated administrator and a standard account; one active and one
  retired problem; an empty ledger and an empty audit log.
\<close>

definition alice :: user where
  "alice = \<lparr>userOid = 1, name = ''Alice'', email = ''alice@example.com'', role = ADMIN,
             isActive = True\<rparr>"

definition bob :: user where
  "bob = \<lparr>userOid = 2, name = ''Bob'', email = ''bob@example.com'', role = ADMIN,
           isActive = True\<rparr>"

definition carol :: user where
  "carol = \<lparr>userOid = 3, name = ''Carol'', email = ''carol@example.com'', role = ADMIN,
             isActive = False\<rparr>"

definition dave :: user where
  "dave = \<lparr>userOid = 4, name = ''Dave'', email = ''dave@example.com'', role = USER,
            isActive = True\<rparr>"

definition twoSum :: problem where
  "twoSum = \<lparr>title = ''Two Sum'', slug = ''two-sum'', difficulty = Easy,
              problemIsActive = True\<rparr>"

definition oldProblem :: problem where
  "oldProblem = \<lparr>title = ''Old Problem'', slug = ''old-problem'', difficulty = Hard,
                  problemIsActive = False\<rparr>"

definition exampleDb :: db where
  "exampleDb =
     \<lparr>users = [alice, bob, carol, dave],
      problems = [10 \<mapsto> twoSum, 11 \<mapsto> oldProblem],
      progressDocs = [],
      adminLogs = [],
      nextOid = 100\<rparr>"

text \<open>The same store after the standard account has completed the problem that was then retired.\<close>

definition retiredDb :: db where
  "retiredDb =
     exampleDb\<lparr>progressDocs :=
       [\<lparr>progressOid = 50, userId = 4, problemId = 11, status = COMPLETED,
         completedAt = Some 1, createdAt = 1, updatedAt = 1\<rparr>]\<rparr>"

text \<open>Verifiers that accept every token with a given payload, or reject every token.\<close>

definition verifyAs :: "IJwtPayload \<Rightarrow> string \<Rightarrow> verifyResult" where
  "verifyAs decoded token = Decoded decoded"

definition verifyExpired :: "string \<Rightarrow> verifyResult" where
  "verifyExpired token = TokenExpiredError"

definition verifyInvalid :: "string \<Rightarrow> verifyResult" where
  "verifyInvalid token = JsonWebTokenError"

definition tokenOf :: "user \<Rightarrow> IJwtPayload" where
  "tokenOf u = \<lparr>jwtUserId = userOid u, jwtEmail = email u, jwtRole = role u\<rparr>"

definition storeDown :: error where
  "storeDown = ThrownError ''MongoNetworkError'' ''connection closed''"

section \<open>The duration parser: results\<close>

lemma matchDuration_pattern:
  assumes "matchDuration s = Some (ds, u)"
  shows "spec_duration_pattern s"
proof -
  from assms have rest: "dropWhile isDigit s = [u]" and ds: "takeWhile isDigit s = ds"
    and ne: "ds \<noteq> []" and un: "isUnit u"
    by (auto simp: matchDuration_def Let_def split: list.splits if_splits)
  have s: "s = ds @ [u]"
    using takeWhile_dropWhile_id [of isDigit s] rest ds by simp
  have "list_all isDigit ds"
    using ds by (auto simp: list_all_iff dest: set_takeWhileD)
  with s ne un show ?thesis
    by (simp add: spec_duration_pattern_def)
qed

lemma pattern_matchDuration:
  assumes "spec_duration_pattern s"
  shows "matchDuration s = Some (butlast s, last s)"
proof -
  from assms have s: "s = butlast s @ [last s]" and ne: "butlast s \<noteq> []"
    and dg: "list_all isDigit (butlast s)" and un: "isUnit (last s)"
    by (auto simp: spec_duration_pattern_def)
  have nd: "\<not> isDigit (last s)"
    using un by (auto simp: isDigit_def isUnit_def)
  have "takeWhile isDigit (butlast s @ [last s]) = butlast s"
    using dg nd by (simp add: list_all_iff)
  moreover have "dropWhile isDigit (butlast s @ [last s]) = [last s]"
    using dg nd by (simp add: list_all_iff)
  ultimately show ?thesis
    using s ne un by (simp add: matchDuration_def Let_def)
qed

lemma parseTimeToSeconds_fallback:
  "\<not> spec_duration_pattern s \<Longrightarrow> parseTimeToSeconds s = 604800"
  using matchDuration_pattern [of s]
  by (cases "matchDuration s") (auto simp: parseTimeToSeconds_def)

lemmas parse_defs =
  parseTimeToSeconds_def matchDuration_def isDigit_def isUnit_def parseInt10_def digitValue_def

text \<open>
  Claim C6. The duration parser maps "7d" to 604800 seconds, "24h" to 86400, "30m" to
  1800 and "45s" to 45; "abc", and every other string that is not an integer followed by
  one of the units d, h, m, s, is mapped to the seven-day default of 604800 seconds.
\<close>

theorem parseTimeToSeconds_contract:
  "parseTimeToSeconds ''7d'' = 604800 \<and>
   parseTimeToSeconds ''24h'' = 86400 \<and>
   parseTimeToSeconds ''30m'' = 1800 \<and>
   parseTimeToSeconds ''45s'' = 45 \<and>
   parseTimeToSeconds ''abc'' = 604800 \<and>
   (\<forall>s. \<not> spec_duration_pattern s \<longrightarrow> parseTimeToSeconds s = 604800)"
proof -
  have "parseTimeToSeconds ''7d'' = 604800" by (simp add: parse_defs)
  moreover have "parseTimeToSeconds ''24h'' = 86400" by (simp add: parse_defs)
  moreover have "parseTimeToSeconds ''30m'' = 1800" by (simp add: parse_defs)
  moreover have "parseTimeToSeconds ''45s'' = 45" by (simp add: parse_defs)
  moreover have "parseTimeToSeconds ''abc'' = 604800" by (simp add: parse_defs)
  ultimately show ?thesis
    using parseTimeToSeconds_fallback by blast
qed

theorem parseTimeToSeconds_contract_witness:
  "\<not> spec_duration_pattern ''7 days'' \<and> parseTimeToSeconds ''7 days'' = 604800"
proof -
  have h: "\<not> spec_duration_pattern ''7 days''"
    by (simp add: spec_duration_pattern_def isDigit_def isUnit_def)
  with parseTimeToSeconds_contract show ?thesis by blast
qed

section \<open>The Authorization Gate and user management: results\<close>

lemmas example_defs =
  exampleDb_def alice_def bob_def carol_def dave_def tokenOf_def
  verifyAs_def verifyExpired_def verifyInvalid_def storeDown_def retiredDb_def
  twoSum_def oldProblem_def

lemma findById_oid: "findById docs i = Some u \<Longrightarrow> userOid u = i"
  by (auto simp: findById_def find_Some_iff)


lemma extractToken_example: "extractToken (Some ''Bearer abc.def.ghi'') = Inr ''abc.def.ghi''"
  by (simp add: extractToken_def startsWith_def)




text \<open>
  Claim C10. An administrator whom the gate has authenticated cannot demote or deactivate
  the own account: with the target identifier equal to the actor's, \<^verbatim>\<open>demoteUser\<close> and
  \<^verbatim>\<open>deactivateUser\<close> both throw a 400 bad-request error and leave the store as it was,
  so the role and the active flag are unchanged and no audit entry is written.
\<close>

theorem no_self_demote_or_deactivate:
  assumes "requireAdmin verify authHeader s = Inr reqUser"
  shows "demoteUser fault reqUser (userOid reqUser) now s =
           (Inl (ApiError 400 ''You cannot demote yourself'' []), s) \<and>
         deactivateUser fault reqUser (userOid reqUser) now s =
           (Inl (ApiError 400 ''You cannot deactivate your own account'' []), s)"
proof -
  from assms obtain i where found: "findById (users s) i = Some reqUser"
    and adm: "role reqUser = ADMIN"
    by (auto simp: requireAdmin_def authMiddleware_def adminMiddleware_def
          split: sum.splits verifyResult.splits option.splits if_splits)
  from found have "userOid reqUser = i" by (rule findById_oid)
  with found adm show ?thesis
    by (simp add: demoteUser_def deactivateUser_def badRequest_def)
qed

theorem no_self_demote_or_deactivate_witness:
  "requireAdmin (verifyAs (tokenOf alice)) (Some ''Bearer abc.def.ghi'') exampleDb = Inr alice \<and>
   demoteUser None alice 1 5 exampleDb =
     (Inl (ApiError 400 ''You cannot demote yourself'' []), exampleDb) \<and>
   deactivateUser None alice 1 5 exampleDb =
     (Inl (ApiError 400 ''You cannot deactivate your own account'' []), exampleDb)"
proof -
  have gate:
    "requireAdmin (verifyAs (tokenOf alice)) (Some ''Bearer abc.def.ghi'') exampleDb = Inr alice"
    by (simp add: requireAdmin_def authMiddleware_def adminMiddleware_def extractToken_example
          findById_def example_defs)
  have "userOid alice = 1" by (simp add: alice_def)
  with no_self_demote_or_deactivate [OF gate, of None 5] gate show ?thesis by simp
qed

lemma errorMiddleware_Failure:
  "\<exists>sc msg errs. errorMiddleware isProduction err = Failure sc msg errs"
  by (cases err) (simp_all add: errorMiddleware_def handleJWTError_def)

lemma promote_dave_down:
  "promoteUser (Some storeDown) alice 4 5 exampleDb =
     (Inl storeDown, exampleDb\<lparr>users := [alice, bob, carol, dave\<lparr>role := ADMIN\<rparr>]\<rparr>)"
  by (simp add: promoteUser_def findById_def save_def logAction_def Let_def example_defs)

text \<open>
  Claim C7, as the code has it. The audit insert fails while a standard account is being
  promoted: the handler has already saved the new role, the exception leaves the handler,
  and the caller gets the error middleware's 500 response instead of the success response.
\<close>

theorem audit_failure_reported:
  "asyncHandler True (promoteUser (Some storeDown) alice 4 5) exampleDb =
     (Failure 500 ''Internal server error'' [],
      exampleDb\<lparr>users := [alice, bob, carol, dave\<lparr>role := ADMIN\<rparr>]\<rparr>)"
  unfolding asyncHandler_def promote_dave_down
  by (simp add: errorMiddleware_def storeDown_def)

text \<open>
  Claim C7, amended. When the audit-log append fails during promote, demote or deactivate
  after the primary change has been saved, the change is not rolled back (the account
  keeps its new role or active flag) and no audit entry is written; the failure is not
  swallowed: the exception propagates, and the caller receives the failure response that
  the error middleware builds from it, never a success response.
\<close>

theorem audit_failure_propagates:
  assumes found: "findById (users s) i = Some u"
  shows "(role u \<noteq> ADMIN \<longrightarrow>
            asyncHandler isProduction (promoteUser (Some err) reqUser i now) s =
              (errorMiddleware isProduction err,
               s\<lparr>users := save (u\<lparr>role := ADMIN\<rparr>) (users s)\<rparr>)) \<and>
         (role u \<noteq> USER \<and> userOid u \<noteq> userOid reqUser \<longrightarrow>
            asyncHandler isProduction (demoteUser (Some err) reqUser i now) s =
              (errorMiddleware isProduction err,
               s\<lparr>users := save (u\<lparr>role := USER\<rparr>) (users s)\<rparr>)) \<and>
         (userOid u \<noteq> userOid reqUser \<and> isActive u \<longrightarrow>
            asyncHandler isProduction (deactivateUser (Some err) reqUser i now) s =
              (errorMiddleware isProduction err,
               s\<lparr>users := save (u\<lparr>isActive := False\<rparr>) (users s)\<rparr>)) \<and>
         (\<forall>sc msg d. errorMiddleware isProduction err \<noteq> Success sc msg d)"
  using found errorMiddleware_Failure [of isProduction err]
  by (auto simp: promoteUser_def demoteUser_def deactivateUser_def logAction_def Let_def
        asyncHandler_def)

theorem audit_failure_propagates_witness:
  "asyncHandler False (promoteUser (Some storeDown) alice 4 5) exampleDb =
     (Failure 500 ''connection closed'' [],
      exampleDb\<lparr>users := [alice, bob, carol, dave\<lparr>role := ADMIN\<rparr>]\<rparr>) \<and>
   asyncHandler False (deactivateUser (Some storeDown) alice 4 5) exampleDb =
     (Failure 500 ''connection closed'' [],
      exampleDb\<lparr>users := [alice, bob, carol, dave\<lparr>isActive := False\<rparr>]\<rparr>) \<and>
   asyncHandler False (demoteUser (Some storeDown) alice 2 5) exampleDb =
     (Failure 500 ''connection closed'' [],
      exampleDb\<lparr>users := [alice, bob\<lparr>role := USER\<rparr>, carol, dave]\<rparr>)"
proof -
  have d: "findById (users exampleDb) 4 = Some dave"
    and b: "findById (users exampleDb) 2 = Some bob"
    by (simp_all add: findById_def example_defs)
  have e: "errorMiddleware False storeDown = Failure 500 ''connection closed'' []"
    by (simp add: errorMiddleware_def storeDown_def)
  have sv: "save (dave\<lparr>role := ADMIN\<rparr>) (users exampleDb) = [alice, bob, carol, dave\<lparr>role := ADMIN\<rparr>]"
    "save (dave\<lparr>isActive := False\<rparr>) (users exampleDb) = [alice, bob, carol, dave\<lparr>isActive := False\<rparr>]"
    "save (bob\<lparr>role := USER\<rparr>) (users exampleDb) = [alice, bob\<lparr>role := USER\<rparr>, carol, dave]"
    by (simp_all add: save_def example_defs)
  have hd: "role dave \<noteq> ADMIN" "userOid dave \<noteq> userOid alice" "isActive dave"
    and hb: "role bob \<noteq> USER" "userOid bob \<noteq> userOid alice"
    by (simp_all add: example_defs)
  from audit_failure_propagates [OF d, of False storeDown alice 5]
    audit_failure_propagates [OF b, of False storeDown alice 5] hd hb
  show ?thesis
    by (simp only: e sv) blast
qed

text \<open>
  Claim C8, as the code has it. An absent credential, a malformed token and an expired
  token are answered with three different messages, which reach the caller unchanged.
\<close>

theorem auth_failure_messages_differ:
  "authMiddleware verifyExpired None exampleDb =
     Inl (ApiError 401 ''Authentication required. Please provide a valid token.'' []) \<and>
   authMiddleware verifyInvalid (Some ''Bearer abc.def.ghi'') exampleDb =
     Inl (ApiError 401 ''Invalid token. Please login again.'' []) \<and>
   authMiddleware verifyExpired (Some ''Bearer abc.def.ghi'') exampleDb =
     Inl (ApiError 401 ''Token has expired. Please login again.'' []) \<and>
   errorMiddleware True (ApiError 401 ''Authentication required. Please provide a valid token.'' [])
     \<noteq> errorMiddleware True (ApiError 401 ''Token has expired. Please login again.'' []) \<and>
   errorMiddleware True (ApiError 401 ''Invalid token. Please login again.'' [])
     \<noteq> errorMiddleware True (ApiError 401 ''Token has expired. Please login again.'' []) \<and>
   errorMiddleware True (ApiError 401 ''Authentication required. Please provide a valid token.'' [])
     \<noteq> errorMiddleware True (ApiError 401 ''Invalid token. Please login again.'' [])"
  by (simp add: authMiddleware_def extractToken_example unauthorized_def errorMiddleware_def
        verifyExpired_def verifyInvalid_def)
   (simp add: extractToken_def unauthorized_def)

text \<open>
  Claim C8, amended. Every request that fails authentication is answered with the same
  status, 401 Unauthorized, and the message of the error reaches the caller as it is; the
  message is not the same for every failure: an absent credential, a malformed token and
  an expired token each have their own message, so the message tells which one occurred.
\<close>

theorem auth_failure_messages:
  "(authMiddleware verify authHeader s = Inl e \<longrightarrow>
      (\<exists>msg. e = ApiError 401 msg [] \<and> errorMiddleware isProduction e = Failure 401 msg [])) \<and>
   authMiddleware verify None s =
     Inl (ApiError 401 ''Authentication required. Please provide a valid token.'' []) \<and>
   (extractToken authHeader = Inr token \<and> verify token = JsonWebTokenError \<longrightarrow>
      authMiddleware verify authHeader s =
        Inl (ApiError 401 ''Invalid token. Please login again.'' [])) \<and>
   (extractToken authHeader = Inr token \<and> verify token = TokenExpiredError \<longrightarrow>
      authMiddleware verify authHeader s =
        Inl (ApiError 401 ''Token has expired. Please login again.'' []))"
  by (auto simp: authMiddleware_def extractToken_def unauthorized_def errorMiddleware_def
        split: sum.splits option.splits verifyResult.splits if_splits list.splits)

theorem auth_failure_messages_witness:
  "authMiddleware verifyInvalid (Some ''Bearer abc.def.ghi'') exampleDb =
     Inl (ApiError 401 ''Invalid token. Please login again.'' []) \<and>
   authMiddleware verifyExpired (Some ''Bearer abc.def.ghi'') exampleDb =
     Inl (ApiError 401 ''Token has expired. Please login again.'' []) \<and>
   errorMiddleware True (ApiError 401 ''Token has expired. Please login again.'' []) =
     Failure 401 ''Token has expired. Please login again.'' []"
proof -
  have inv: "verifyInvalid ''abc.def.ghi'' = JsonWebTokenError"
    and ex: "verifyExpired ''abc.def.ghi'' = TokenExpiredError"
    by (simp_all add: verifyInvalid_def verifyExpired_def)
  from auth_failure_messages [of verifyInvalid "Some ''Bearer abc.def.ghi''" exampleDb _ True
      "''abc.def.ghi''"] inv extractToken_example
  have a: "authMiddleware verifyInvalid (Some ''Bearer abc.def.ghi'') exampleDb =
     Inl (ApiError 401 ''Invalid token. Please login again.'' [])"
    by blast
  from auth_failure_messages [of verifyExpired "Some ''Bearer abc.def.ghi''" exampleDb
      "ApiError 401 ''Token has expired. Please login again.'' []" True "''abc.def.ghi''"]
    ex extractToken_example
  have b: "authMiddleware verifyExpired (Some ''Bearer abc.def.ghi'') exampleDb =
     Inl (ApiError 401 ''Token has expired. Please login again.'' [])"
    and c: "errorMiddleware True (ApiError 401 ''Token has expired. Please login again.'' []) =
     Failure 401 ''Token has expired. Please login again.'' []"
    by auto
  from a b c show ?thesis by blast
qed

section \<open>The Progress Ledger: results\<close>

lemma updateFirst_Cons:
  "updateFirst q f (d # ds) =
     (if q d then (Some (f d), f d # ds)
      else (fst (updateFirst q f ds), d # snd (updateFirst q f ds)))"
  by (cases "updateFirst q f ds") simp

lemma updateFirst_fst: "fst (updateFirst q f ds) = map_option f (find q ds)"
  by (induction ds) (simp_all add: updateFirst_Cons del: updateFirst.simps(2))

lemma updateFirst_length: "length (snd (updateFirst q f ds)) = length ds"
  by (induction ds) (simp_all add: updateFirst_Cons del: updateFirst.simps(2))

lemma updateFirst_filter:
  "(\<And>d. K (f d) = K d) \<Longrightarrow>
   length (filter K (snd (updateFirst q f ds))) = length (filter K ds)"
  by (induction ds) (simp_all add: updateFirst_Cons del: updateFirst.simps(2))

lemma updateFirst_find:
  "(\<And>d. q (f d) = q d) \<Longrightarrow> find q (snd (updateFirst q f ds)) = map_option f (find q ds)"
  by (induction ds) (simp_all add: updateFirst_Cons del: updateFirst.simps(2))

lemma find_None_filter: "find q ds = None \<longleftrightarrow> length (filter q ds) = 0"
  by (induction ds) simp_all

lemma find_append_new: "find q ds = None \<Longrightarrow> q d \<Longrightarrow> find q (ds @ [d]) = Some d"
  by (induction ds) (simp_all split: if_splits)


lemma updateFirst_pair:
  "updateFirst q f ds = (map_option f (find q ds), snd (updateFirst q f ds))"
  by (simp add: prod_eq_iff updateFirst_fst)

lemma findOneAndUpdate_existing:
  assumes "find (\<lambda>d. userId d = u \<and> problemId d = p) (progressDocs s) = Some x"
  shows "UserProgress_findOneAndUpdate u p st ca upsert now s =
           (Some (x\<lparr>status := st, completedAt := ca, updatedAt := now\<rparr>),
            s\<lparr>progressDocs := snd (updateFirst (\<lambda>d. userId d = u \<and> problemId d = p)
                 (\<lambda>d. d\<lparr>status := st, completedAt := ca, updatedAt := now\<rparr>) (progressDocs s))\<rparr>)"
  unfolding UserProgress_findOneAndUpdate_def
  by (subst updateFirst_pair) (simp add: assms)

lemma findOneAndUpdate_absent:
  assumes "find (\<lambda>d. userId d = u \<and> problemId d = p) (progressDocs s) = None"
  shows "UserProgress_findOneAndUpdate u p st ca upsert now s =
           (if upsert
            then (Some \<lparr>progressOid = nextOid s, userId = u, problemId = p, status = st,
                        completedAt = ca, createdAt = now, updatedAt = now\<rparr>,
                  s\<lparr>progressDocs := progressDocs s @
                       [\<lparr>progressOid = nextOid s, userId = u, problemId = p, status = st,
                         completedAt = ca, createdAt = now, updatedAt = now\<rparr>],
                     nextOid := Suc (nextOid s)\<rparr>)
            else (None, s))"
  unfolding UserProgress_findOneAndUpdate_def
  by (subst updateFirst_pair) (simp add: assms Let_def)

lemma findOneAndUpdate_uniqueFor:
  assumes le: "uniqueFor u' p' s"
  shows "uniqueFor u' p' (snd (UserProgress_findOneAndUpdate u p st ca upsert now s))"
proof (cases "find (\<lambda>d. userId d = u \<and> problemId d = p) (progressDocs s)")
  case None
  from None have zero: "recordsFor u p s = 0"
    by (simp add: find_None_filter recordsFor_def)
  show ?thesis
    using le zero unfolding findOneAndUpdate_absent [OF None]
    by (cases "u' = u \<and> p' = p") (auto simp: recordsFor_def uniqueFor_def)
next
  case (Some x)
  show ?thesis
    using le unfolding findOneAndUpdate_existing [OF Some]
    by (simp add: recordsFor_def uniqueFor_def updateFirst_filter)
qed

lemma markCompleted_uniqueFor:
  "uniqueFor u' p' s \<Longrightarrow> uniqueFor u' p' (snd (UserProgress_markCompleted u p now s))"
  unfolding UserProgress_markCompleted_def by (rule findOneAndUpdate_uniqueFor)

lemma markComplete_uniqueFor:
  assumes "uniqueFor u' p' s"
  shows "uniqueFor u' p' (snd (markComplete reqUser p now s))"
proof (cases "problemMissing s p")
  case True
  with assms show ?thesis by (simp add: markComplete_def)
next
  case False
  have "snd (markComplete reqUser p now s) =
          snd (UserProgress_markCompleted (userOid reqUser) p now s)"
    using False by (simp add: markComplete_def split: prod.splits option.splits)
  with markCompleted_uniqueFor [OF assms] show ?thesis by simp
qed

lemma updateProgress_uniqueFor:
  assumes "uniqueFor u' p' s"
  shows "uniqueFor u' p' (snd (updateProgress reqUser p st now s))"
proof (cases "problemMissing s p")
  case True
  with assms show ?thesis by (simp add: updateProgress_def)
next
  case False
  have "snd (updateProgress reqUser p st now s) =
          snd (if st = COMPLETED then UserProgress_markCompleted (userOid reqUser) p now s
               else UserProgress_findOneAndUpdate (userOid reqUser) p st None True now s)"
    using False by (simp add: updateProgress_def split: prod.splits option.splits)
  with markCompleted_uniqueFor [OF assms] findOneAndUpdate_uniqueFor [OF assms]
  show ?thesis by simp
qed

lemma resetProgress_uniqueFor:
  assumes "uniqueFor u' p' s"
  shows "uniqueFor u' p' (snd (resetProgress reqUser p now s))"
proof -
  have "snd (resetProgress reqUser p now s) =
          snd (UserProgress_findOneAndUpdate (userOid reqUser) p NOT_STARTED None False now s)"
    by (simp add: resetProgress_def UserProgress_resetProgress_def
          split: prod.splits option.splits)
  with findOneAndUpdate_uniqueFor [OF assms] show ?thesis by simp
qed

lemma processUpdates_uniqueFor:
  "uniqueFor u' p' s \<Longrightarrow> uniqueFor u' p' (snd (processUpdates u updates now s))"
proof (induction updates arbitrary: s)
  case Nil
  then show ?case by simp
next
  case (Cons x rest)
  obtain p st where x: "x = (p, st)" by (cases x)
  define s1 where "s1 = snd (if st = COMPLETED then UserProgress_markCompleted u p now s
               else UserProgress_findOneAndUpdate u p st None True now s)"
  have "uniqueFor u' p' s1"
    unfolding s1_def
    using markCompleted_uniqueFor [OF Cons.prems] findOneAndUpdate_uniqueFor [OF Cons.prems]
    by simp
  then have "uniqueFor u' p' (snd (processUpdates u rest now s1))"
    by (rule Cons.IH)
  moreover have "snd (processUpdates u (x # rest) now s) = snd (processUpdates u rest now s1)"
    by (simp add: x s1_def split: prod.splits)
  ultimately show ?case by simp
qed

lemma postProgressBatch_uniqueFor:
  assumes "uniqueFor u' p' s"
  shows "uniqueFor u' p' (snd (postProgressBatch reqUser updates now s))"
proof -
  have "snd (postProgressBatch reqUser updates now s) = s \<or>
        snd (postProgressBatch reqUser updates now s) =
          snd (processUpdates (userOid reqUser) updates now s)"
    by (simp add: postProgressBatch_def batchUpdateProgress_def validateBatchBody_def Let_def
          split: prod.splits)
  with assms processUpdates_uniqueFor [OF assms] show ?thesis by auto
qed

lemma handle_uniqueFor:
  "uniqueFor u p s \<Longrightarrow> uniqueFor u p (snd (handle r now s))"
  by (cases r)
    (simp_all add: markComplete_uniqueFor updateProgress_uniqueFor resetProgress_uniqueFor
       postProgressBatch_uniqueFor)

lemma run_uniqueFor:
  "uniqueFor u p s \<Longrightarrow> uniqueFor u p (run rs s)"
proof (induction rs arbitrary: s)
  case Nil
  then show ?case by simp
next
  case (Cons x rs)
  obtain r now where x: "x = (r, now)" by (cases x)
  from Cons.prems have "uniqueFor u p (snd (handle r now s))"
    by (rule handle_uniqueFor)
  from Cons.IH [OF this] show ?case by (simp add: x)
qed

lemma findOneAndUpdate_upsert:
  "\<exists>d s'. UserProgress_findOneAndUpdate u p st ca True now s = (Some d, s') \<and>
     status d = st \<and> completedAt d = ca \<and> userId d = u \<and> problemId d = p \<and>
     find (\<lambda>d. userId d = u \<and> problemId d = p) (progressDocs s') = Some d"
proof (cases "find (\<lambda>d. userId d = u \<and> problemId d = p) (progressDocs s)")
  case None
  then show ?thesis
    unfolding findOneAndUpdate_absent [OF None]
    by (simp add: find_append_new)
next
  case (Some x)
  then have "userId x = u \<and> problemId x = p"
    by (auto simp: find_Some_iff)
  then show ?thesis
    unfolding findOneAndUpdate_existing [OF Some]
    by (simp add: updateFirst_find Some)
qed

lemma updateFirst_in_place:
  "find q ds = Some x \<Longrightarrow>
   snd (updateFirst q f ds) =
     takeWhile (\<lambda>d. \<not> q d) ds @ f x # tl (dropWhile (\<lambda>d. \<not> q d) ds)"
  by (induction ds) (simp_all add: updateFirst_Cons del: updateFirst.simps(2) split: if_splits)

lemma find_Some_recordsFor:
  "find (\<lambda>d. userId d = u \<and> problemId d = p) (progressDocs s) = Some x \<Longrightarrow>
   0 < recordsFor u p s"
  using find_None_filter [of "\<lambda>d. userId d = u \<and> problemId d = p" "progressDocs s"]
  by (simp add: recordsFor_def)

lemma Problem_find_active_short:
  assumes "p \<in> set problemIds" and "problemMissing s p"
  shows "length (Problem_find_active s problemIds) < length problemIds"
proof -
  let ?f = "\<lambda>i. case problems s i of None \<Rightarrow> None
             | Some pr \<Rightarrow> if problemIsActive pr then Some pr else None"
  from assms(2) have none: "?f p = None"
    by (auto simp: problemMissing_def split: option.splits)
  have "length (Problem_find_active s problemIds) =
          length (filter (\<lambda>i. ?f i \<noteq> None) (remdups problemIds))"
    by (simp add: Problem_find_active_def map_filter_def)
  also have "\<dots> < length (remdups problemIds)"
    using assms(1) none by (intro length_filter_less [of p]) simp_all
  also have "\<dots> \<le> length problemIds"
    by (rule length_remdups_leq)
  finally show ?thesis .
qed

text \<open>
  Claim C1. Starting from a ledger that holds no record for an account and a problem, any
  finite sequence of mark-complete, update-status, reset and batch-update requests, by any
  accounts and on any problems, served one after another, leaves at most one Progress
  Record for that pair.
\<close>

theorem ledger_uniqueness:
  "recordsFor u p s = 0 \<Longrightarrow> recordsFor u p (run rs s) \<le> 1"
  using run_uniqueFor [of u p s rs] by (simp add: uniqueFor_def)

theorem ledger_uniqueness_witness:
  "recordsFor 4 10 exampleDb = 0 \<and>
   recordsFor 4 10
     (run [(MarkComplete dave 10, 1), (MarkComplete dave 10, 2), (Reset dave 10, 3),
           (BatchUpdate dave [(10, COMPLETED)], 4), (UpdateStatus dave 10 NOT_STARTED, 5),
           (MarkComplete alice 10, 6)] exampleDb) \<le> 1"
proof -
  have h: "recordsFor 4 10 exampleDb = 0"
    by (simp add: recordsFor_def exampleDb_def)
  from ledger_uniqueness [OF h] h show ?thesis by blast
qed

text \<open>
  Claim C3. Two mark-complete calls in immediate succession for the same account and an
  existing, active problem both answer with a record whose status is completed. After each
  call the ledger holds the record returned as the record of the pair. The second call
  returns the record of the first, same identifier, account and problem, with only the
  completion and modification times refreshed, and rewrites it in place: the ledger keeps
  its length and its number of records for the pair, so no second record is created. When
  the ledger had no record for the pair the first call appends one, and when it had at
  most one it has exactly one after each call.
\<close>

theorem markComplete_twice:
  assumes cat: "problems s p = Some pr" and active: "problemIsActive pr"
  shows "\<exists>d1 s1 d2 s2.
     markComplete reqUser p t1 s =
       (Inr (Success 200 ''Problem marked as completed''
          (Some (ProgressPayload d1
             (Some \<lparr>popOid = p, popTitle = title pr, popSlug = slug pr,
                    popDifficulty = difficulty pr\<rparr>)))), s1) \<and>
     markComplete reqUser p t2 s1 =
       (Inr (Success 200 ''Problem marked as completed''
          (Some (ProgressPayload d2
             (Some \<lparr>popOid = p, popTitle = title pr, popSlug = slug pr,
                    popDifficulty = difficulty pr\<rparr>)))), s2) \<and>
     status d1 = COMPLETED \<and> status d2 = COMPLETED \<and>
     completedAt d1 = Some t1 \<and> completedAt d2 = Some t2 \<and>
     userId d1 = userOid reqUser \<and> problemId d1 = p \<and>
     userId d2 = userOid reqUser \<and> problemId d2 = p \<and>
     progressOid d2 = progressOid d1 \<and>
     d2 = d1\<lparr>completedAt := Some t2, updatedAt := t2\<rparr> \<and>
     find (\<lambda>d. userId d = userOid reqUser \<and> problemId d = p) (progressDocs s1) = Some d1 \<and>
     find (\<lambda>d. userId d = userOid reqUser \<and> problemId d = p) (progressDocs s2) = Some d2 \<and>
     progressDocs s2 =
       takeWhile (\<lambda>d. \<not> (userId d = userOid reqUser \<and> problemId d = p)) (progressDocs s1) @
       d2 # tl (dropWhile (\<lambda>d. \<not> (userId d = userOid reqUser \<and> problemId d = p))
                  (progressDocs s1)) \<and>
     length (progressDocs s2) = length (progressDocs s1) \<and>
     recordsFor (userOid reqUser) p s2 = recordsFor (userOid reqUser) p s1 \<and>
     (recordsFor (userOid reqUser) p s = 0 \<longrightarrow> progressDocs s1 = progressDocs s @ [d1]) \<and>
     (recordsFor (userOid reqUser) p s \<le> 1 \<longrightarrow>
        recordsFor (userOid reqUser) p s1 = 1 \<and> recordsFor (userOid reqUser) p s2 = 1)"
proof -
  let ?u = "userOid reqUser"
  let ?K = "\<lambda>d. userId d = ?u \<and> problemId d = p"
  let ?pop = "Some \<lparr>popOid = p, popTitle = title pr, popSlug = slug pr,
                     popDifficulty = difficulty pr\<rparr>"
  from findOneAndUpdate_upsert [of ?u p COMPLETED "Some t1" t1 s]
  obtain d1 s1 where
    first: "UserProgress_findOneAndUpdate ?u p COMPLETED (Some t1) True t1 s = (Some d1, s1)"
    and d1: "status d1 = COMPLETED" "completedAt d1 = Some t1" "userId d1 = ?u"
      "problemId d1 = p"
    and found: "find ?K (progressDocs s1) = Some d1"
    by blast
  have s1: "s1 = snd (UserProgress_findOneAndUpdate ?u p COMPLETED (Some t1) True t1 s)"
    using first by simp
  have cat1: "problems s1 = problems s"
    unfolding s1
    by (cases "find ?K (progressDocs s)")
      (simp_all add: findOneAndUpdate_absent findOneAndUpdate_existing)
  let ?f = "\<lambda>d. d\<lparr>status := COMPLETED, completedAt := Some t2, updatedAt := t2\<rparr>"
  let ?d2 = "?f d1"
  let ?s2 = "s1\<lparr>progressDocs := snd (updateFirst ?K ?f (progressDocs s1))\<rparr>"
  have second:
    "UserProgress_findOneAndUpdate ?u p COMPLETED (Some t2) True t2 s1 = (Some ?d2, ?s2)"
    by (rule findOneAndUpdate_existing [OF found])
  have ok: "\<not> problemMissing s p" "\<not> problemMissing s1 p"
    using cat active cat1 by (simp_all add: problemMissing_def)
  have r1: "markComplete reqUser p t1 s =
       (Inr (Success 200 ''Problem marked as completed''
          (Some (ProgressPayload d1 ?pop))), s1)"
    using ok(1) first d1 cat cat1
    by (simp add: markComplete_def UserProgress_markCompleted_def populate_def)
  have r2: "markComplete reqUser p t2 s1 =
       (Inr (Success 200 ''Problem marked as completed''
          (Some (ProgressPayload ?d2 ?pop))), ?s2)"
    using ok(2) second d1 cat cat1
    by (simp add: markComplete_def UserProgress_markCompleted_def populate_def)
  have d2: "?d2 = d1\<lparr>completedAt := Some t2, updatedAt := t2\<rparr>"
    using d1(1) by simp
  have found2: "find ?K (progressDocs ?s2) = Some ?d2"
    by (simp add: updateFirst_find found)
  have place: "progressDocs ?s2 =
       takeWhile (\<lambda>d. \<not> ?K d) (progressDocs s1) @
       ?d2 # tl (dropWhile (\<lambda>d. \<not> ?K d) (progressDocs s1))"
    by (simp add: updateFirst_in_place [OF found])
  have same: "recordsFor ?u p ?s2 = recordsFor ?u p s1"
    "length (progressDocs ?s2) = length (progressDocs s1)"
    by (simp_all add: recordsFor_def updateFirst_filter updateFirst_length)
  have fresh: "recordsFor ?u p s = 0 \<longrightarrow> progressDocs s1 = progressDocs s @ [d1]"
  proof
    assume "recordsFor ?u p s = 0"
    then have "find ?K (progressDocs s) = None"
      by (simp add: find_None_filter recordsFor_def)
    from findOneAndUpdate_absent [OF this, of COMPLETED "Some t1" True t1] first
    show "progressDocs s1 = progressDocs s @ [d1]" by auto
  qed
  have one: "recordsFor ?u p s \<le> 1 \<longrightarrow> recordsFor ?u p s1 = 1 \<and> recordsFor ?u p ?s2 = 1"
  proof
    assume "recordsFor ?u p s \<le> 1"
    then have "uniqueFor ?u p s" by (simp add: uniqueFor_def)
    then have "uniqueFor ?u p s1"
      unfolding s1 by (rule findOneAndUpdate_uniqueFor)
    moreover have "0 < recordsFor ?u p s1"
      using found by (rule find_Some_recordsFor)
    ultimately have "recordsFor ?u p s1 = 1"
      by (simp add: uniqueFor_def)
    with same(1) show "recordsFor ?u p s1 = 1 \<and> recordsFor ?u p ?s2 = 1" by simp
  qed
  have fields: "status ?d2 = COMPLETED" "completedAt ?d2 = Some t2" "userId ?d2 = ?u"
    "problemId ?d2 = p" "progressOid ?d2 = progressOid d1"
    using d1 by simp_all
  show ?thesis
    apply (rule exI [of _ d1], rule exI [of _ s1], rule exI [of _ ?d2], rule exI [of _ ?s2])
    using r1 r2 d1 fields d2 found found2 place same fresh one
    by (intro conjI) assumption+
qed

theorem markComplete_twice_witness:
  "problems exampleDb 10 = Some twoSum \<and>
   problemIsActive twoSum \<and>
   recordsFor (userOid dave) 10 exampleDb \<le> 1 \<and>
   (\<exists>d1 s1 d2 s2.
     markComplete dave 10 1 exampleDb =
       (Inr (Success 200 ''Problem marked as completed''
          (Some (ProgressPayload d1
             (Some \<lparr>popOid = 10, popTitle = ''Two Sum'', popSlug = ''two-sum'',
                    popDifficulty = Easy\<rparr>)))), s1) \<and>
     markComplete dave 10 2 s1 =
       (Inr (Success 200 ''Problem marked as completed''
          (Some (ProgressPayload d2
             (Some \<lparr>popOid = 10, popTitle = ''Two Sum'', popSlug = ''two-sum'',
                    popDifficulty = Easy\<rparr>)))), s2) \<and>
     status d1 = COMPLETED \<and> status d2 = COMPLETED \<and>
     progressOid d2 = progressOid d1 \<and>
     progressDocs s1 = [d1] \<and>
     length (progressDocs s2) = length (progressDocs s1) \<and>
     recordsFor (userOid dave) 10 s1 = 1 \<and> recordsFor (userOid dave) 10 s2 = 1)"
proof -
  have cat: "problems exampleDb 10 = Some twoSum"
    by (simp add: exampleDb_def)
  have active: "problemIsActive twoSum"
    by (simp add: twoSum_def)
  have zero: "recordsFor (userOid dave) 10 exampleDb = 0"
    and docs: "progressDocs exampleDb = []"
    by (simp_all add: recordsFor_def exampleDb_def)
  have fields: "title twoSum = ''Two Sum''" "slug twoSum = ''two-sum''"
    "difficulty twoSum = Easy"
    by (simp_all add: twoSum_def)
  from markComplete_twice [OF cat active, of dave 1 2] cat active zero docs
  show ?thesis
    unfolding fields by (simp only:) force
qed

text \<open>
  Claim C4. Reset for an account and a problem without a Progress Record answers with the
  success outcome "No progress to reset", not with an error, and leaves the store, and so
  the ledger, exactly as it was: no record is created.
\<close>

theorem reset_without_record:
  assumes "recordsFor (userOid reqUser) p s = 0"
  shows "resetProgress reqUser p now s = (Inr (Success 200 ''No progress to reset'' None), s)"
proof -
  from assms have "find (\<lambda>d. userId d = userOid reqUser \<and> problemId d = p) (progressDocs s) = None"
    by (simp add: find_None_filter recordsFor_def)
  then show ?thesis
    by (simp add: resetProgress_def UserProgress_resetProgress_def findOneAndUpdate_absent)
qed

theorem reset_without_record_witness:
  "recordsFor (userOid dave) 10 exampleDb = 0 \<and>
   resetProgress dave 10 7 exampleDb =
     (Inr (Success 200 ''No progress to reset'' None), exampleDb)"
proof -
  have h: "recordsFor (userOid dave) 10 exampleDb = 0"
    by (simp add: recordsFor_def exampleDb_def)
  from reset_without_record [OF h] h show ?thesis by simp
qed

text \<open>
  Claim C5. A batch-update request that names at least one problem which is not an
  existing, active problem of the catalog is rejected as a whole with a 400 error, by the
  controller and so by the route, and the store is left as it was: none of the batch's
  mutations is applied.
\<close>

theorem batch_rejected_before_mutation:
  assumes "(p, st) \<in> set updates" and "problemMissing s p"
  shows "batchUpdateProgress reqUser updates now s =
           (Inl (ApiError 400 ''One or more problems not found'' []), s) \<and>
         (\<exists>msg errs. postProgressBatch reqUser updates now s = (Inl (ApiError 400 msg errs), s))"
proof -
  from assms(1) have "p \<in> set (map fst updates)" by force
  from Problem_find_active_short [OF this assms(2)]
  have "length (Problem_find_active s (map fst updates)) \<noteq> length (map fst updates)"
    by simp
  then have b: "batchUpdateProgress reqUser updates now s =
           (Inl (ApiError 400 ''One or more problems not found'' []), s)"
    by (simp add: batchUpdateProgress_def Let_def badRequest_def)
  then show ?thesis
    by (simp add: postProgressBatch_def validateBatchBody_def)
qed

theorem batch_rejected_before_mutation_witness:
  "problemMissing exampleDb 11 \<and>
   batchUpdateProgress dave [(10, COMPLETED), (11, NOT_STARTED)] 7 exampleDb =
     (Inl (ApiError 400 ''One or more problems not found'' []), exampleDb)"
proof -
  have mem: "(11, NOT_STARTED) \<in> set [(10, COMPLETED), (11::nat, NOT_STARTED)]"
    by simp
  have missing: "problemMissing exampleDb 11"
    by (simp add: problemMissing_def exampleDb_def oldProblem_def)
  from batch_rejected_before_mutation [OF mem missing, of dave 7] missing
  show ?thesis by simp
qed

text \<open>
  Claim C9, as the code has it. The reset controller makes no existence or active check:
  for a retired problem on which the account has a completed record, reset answers with
  success, sets the record back to not-started, and sends it with the retired problem's
  catalog fields.
\<close>

theorem reset_on_retired_problem:
  "problemMissing retiredDb 11 \<and>
   resetProgress dave 11 9 retiredDb =
     (Inr (Success 200 ''Progress reset successfully''
        (Some (ProgressPayload
           \<lparr>progressOid = 50, userId = 4, problemId = 11, status = NOT_STARTED,
            completedAt = None, createdAt = 1, updatedAt = 9\<rparr>
           (Some \<lparr>popOid = 11, popTitle = ''Old Problem'', popSlug = ''old-problem'',
                  popDifficulty = Hard\<rparr>)))),
      exampleDb\<lparr>progressDocs :=
        [\<lparr>progressOid = 50, userId = 4, problemId = 11, status = NOT_STARTED,
          completedAt = None, createdAt = 1, updatedAt = 9\<rparr>]\<rparr>)"
  by (simp add: problemMissing_def resetProgress_def UserProgress_resetProgress_def
        UserProgress_findOneAndUpdate_def populate_def example_defs)

text \<open>
  Claim C9, amended. Mark-complete refuses retired problems: for a problem identifier that
  does not name an existing, active problem it throws 404 and leaves the store unchanged.
  Reset makes no such check and never rejects on account of the problem. When the account
  has no record for the problem it answers "No progress to reset" and leaves the store
  unchanged. Otherwise it rewrites the account's record for the problem in place, with
  status not-started, completed-at cleared and the modification time refreshed, leaves
  every other record and the rest of the store as they were, and answers "Progress reset
  successfully" with that record; the catalog is read only to populate the record's problem
  reference in the answer, with the catalog document's fields whether the problem is active
  or not, and with null when the catalog has no such problem.
\<close>

theorem markComplete_refuses_reset_does_not:
  "(problemMissing s p \<longrightarrow>
      markComplete reqUser p now s = (Inl (ApiError 404 ''Problem not found'' []), s)) \<and>
   (recordsFor (userOid reqUser) p s = 0 \<longrightarrow>
      resetProgress reqUser p now s = (Inr (Success 200 ''No progress to reset'' None), s)) \<and>
   (recordsFor (userOid reqUser) p s \<noteq> 0 \<longrightarrow>
      (\<exists>x. find (\<lambda>d. userId d = userOid reqUser \<and> problemId d = p) (progressDocs s) = Some x \<and>
         resetProgress reqUser p now s =
           (Inr (Success 200 ''Progress reset successfully''
              (Some (ProgressPayload
                 (x\<lparr>status := NOT_STARTED, completedAt := None, updatedAt := now\<rparr>)
                 (case problems s p of
                    None \<Rightarrow> None
                  | Some pr \<Rightarrow>
                      Some \<lparr>popOid = p, popTitle = title pr, popSlug = slug pr,
                            popDifficulty = difficulty pr\<rparr>)))),
            s\<lparr>progressDocs :=
                takeWhile (\<lambda>d. \<not> (userId d = userOid reqUser \<and> problemId d = p))
                  (progressDocs s) @
                x\<lparr>status := NOT_STARTED, completedAt := None, updatedAt := now\<rparr> #
                tl (dropWhile (\<lambda>d. \<not> (userId d = userOid reqUser \<and> problemId d = p))
                      (progressDocs s))\<rparr>)))"
proof -
  let ?u = "userOid reqUser"
  let ?K = "\<lambda>d. userId d = ?u \<and> problemId d = p"
  let ?f = "\<lambda>d. d\<lparr>status := NOT_STARTED, completedAt := None, updatedAt := now\<rparr>"
  have mark: "problemMissing s p \<longrightarrow>
      markComplete reqUser p now s = (Inl (ApiError 404 ''Problem not found'' []), s)"
    by (simp add: markComplete_def notFound_def)
  have none: "recordsFor ?u p s = 0 \<longrightarrow>
      resetProgress reqUser p now s = (Inr (Success 200 ''No progress to reset'' None), s)"
    by (simp add: resetProgress_def UserProgress_resetProgress_def findOneAndUpdate_absent
          find_None_filter recordsFor_def)
  have some: "recordsFor ?u p s \<noteq> 0 \<longrightarrow>
      (\<exists>x. find ?K (progressDocs s) = Some x \<and>
         resetProgress reqUser p now s =
           (Inr (Success 200 ''Progress reset successfully''
              (Some (ProgressPayload (?f x)
                 (case problems s p of
                    None \<Rightarrow> None
                  | Some pr \<Rightarrow>
                      Some \<lparr>popOid = p, popTitle = title pr, popSlug = slug pr,
                            popDifficulty = difficulty pr\<rparr>)))),
            s\<lparr>progressDocs :=
                takeWhile (\<lambda>d. \<not> ?K d) (progressDocs s) @ ?f x #
                tl (dropWhile (\<lambda>d. \<not> ?K d) (progressDocs s))\<rparr>))"
  proof
    assume "recordsFor ?u p s \<noteq> 0"
    then obtain x where x: "find ?K (progressDocs s) = Some x"
      by (cases "find ?K (progressDocs s)") (simp_all add: find_None_filter recordsFor_def)
    then have key: "problemId x = p"
      by (auto simp: find_Some_iff)
    have "resetProgress reqUser p now s =
           (Inr (Success 200 ''Progress reset successfully''
              (Some (ProgressPayload (?f x)
                 (case problems s p of
                    None \<Rightarrow> None
                  | Some pr \<Rightarrow>
                      Some \<lparr>popOid = p, popTitle = title pr, popSlug = slug pr,
                            popDifficulty = difficulty pr\<rparr>)))),
            s\<lparr>progressDocs :=
                takeWhile (\<lambda>d. \<not> ?K d) (progressDocs s) @ ?f x #
                tl (dropWhile (\<lambda>d. \<not> ?K d) (progressDocs s))\<rparr>)"
      by (simp add: resetProgress_def UserProgress_resetProgress_def
            findOneAndUpdate_existing [OF x] updateFirst_in_place [OF x] populate_def key
            split: option.splits)
    with x show "\<exists>x. find ?K (progressDocs s) = Some x \<and>
         resetProgress reqUser p now s =
           (Inr (Success 200 ''Progress reset successfully''
              (Some (ProgressPayload (?f x)
                 (case problems s p of
                    None \<Rightarrow> None
                  | Some pr \<Rightarrow>
                      Some \<lparr>popOid = p, popTitle = title pr, popSlug = slug pr,
                            popDifficulty = difficulty pr\<rparr>)))),
            s\<lparr>progressDocs :=
                takeWhile (\<lambda>d. \<not> ?K d) (progressDocs s) @ ?f x #
                tl (dropWhile (\<lambda>d. \<not> ?K d) (progressDocs s))\<rparr>)"
      by blast
  qed
  from mark none some show ?thesis by blast
qed

theorem markComplete_refuses_reset_does_not_witness:
  "problemMissing retiredDb 11 \<and>
   markComplete dave 11 9 retiredDb = (Inl (ApiError 404 ''Problem not found'' []), retiredDb) \<and>
   recordsFor (userOid dave) 10 retiredDb = 0 \<and>
   resetProgress dave 10 9 retiredDb =
     (Inr (Success 200 ''No progress to reset'' None), retiredDb) \<and>
   recordsFor (userOid dave) 11 retiredDb \<noteq> 0 \<and>
   (\<exists>d pop s'. resetProgress dave 11 9 retiredDb =
      (Inr (Success 200 ''Progress reset successfully'' (Some (ProgressPayload d pop))), s') \<and>
      status d = NOT_STARTED \<and> completedAt d = None \<and> length (progressDocs s') = 1)"
proof -
  have missing: "problemMissing retiredDb 11"
    by (simp add: problemMissing_def example_defs)
  have zero: "recordsFor (userOid dave) 10 retiredDb = 0"
    and one: "recordsFor (userOid dave) 11 retiredDb \<noteq> 0"
    by (simp_all add: recordsFor_def example_defs)
  have docs: "progressDocs retiredDb =
       [\<lparr>progressOid = 50, userId = 4, problemId = 11, status = COMPLETED,
         completedAt = Some 1, createdAt = 1, updatedAt = 1\<rparr>]"
    and who: "userOid dave = 4"
    by (simp_all add: example_defs)
  note inst = markComplete_refuses_reset_does_not [where s = retiredDb and reqUser = dave
      and now = 9]
  from inst [of 11] missing
  have a: "markComplete dave 11 9 retiredDb =
      (Inl (ApiError 404 ''Problem not found'' []), retiredDb)"
    by blast
  from inst [of 11] one
  have b: "\<exists>d pop s'. resetProgress dave 11 9 retiredDb =
      (Inr (Success 200 ''Progress reset successfully'' (Some (ProgressPayload d pop))), s') \<and>
      status d = NOT_STARTED \<and> completedAt d = None \<and> length (progressDocs s') = 1"
    unfolding docs who by auto
  from inst [of 10] zero
  have c: "resetProgress dave 10 9 retiredDb =
     (Inr (Success 200 ''No progress to reset'' None), retiredDb)"
    by blast
  from missing zero one a b c show ?thesis by blast
qed

end
